theory Spec2Isabelle
  imports Complex_Main
begin

section \<open>Numbers\<close>

text \<open>
  A JavaScript number is an IEEE 754 double: \<^verbatim>\<open>NaN\<close>, an infinity, or a finite value,
  held here as the real number it denotes (the two zeros are not told apart; the only
  operation that could tell them apart, a division by zero, is reported separately below).
\<close>

datatype jsnum = NaN | Fin real | PosInf | NegInf

text \<open>Powers of two with an integer exponent.\<close>

definition pow2 :: "int \<Rightarrow> real" where
  "pow2 e = (if 0 \<le> e then 2 ^ nat e else 1 / 2 ^ nat (- e))"

text \<open>
  The exponent of a positive real in the double format: the \<open>e\<close> with
  \<open>2\<^sup>e \<le> x < 2\<^sup>e\<^sup>+\<^sup>1\<close>, kept between \<open>-1022\<close> (below it the numbers are
  subnormal) and \<open>1023\<close>. It is searched upwards from 0 for \<open>x \<ge> 1\<close>, downwards otherwise.
\<close>

function binade_up :: "real \<Rightarrow> int \<Rightarrow> int" where
  "binade_up x e = (if e < 1023 \<and> pow2 (e + 1) \<le> x then binade_up x (e + 1) else e)"
  by pat_completeness auto
termination
  by (relation "measure (\<lambda>(x, e). nat (1023 - e))") auto

function binade_down :: "real \<Rightarrow> int \<Rightarrow> int" where
  "binade_down x e = (if - 1022 < e \<and> x < pow2 e then binade_down x (e - 1) else e)"
  by pat_completeness auto
termination
  by (relation "measure (\<lambda>(x, e). nat (e + 1022))") auto

definition binade :: "real \<Rightarrow> int" where
  "binade x = (if 1 \<le> x then binade_up x 0 else binade_down x 0)"

text \<open>The nearest integer, a tie going to the even one.\<close>

definition round_half_even :: "real \<Rightarrow> int" where
  "round_half_even x =
     (let f = \<lfloor>x\<rfloor>; d = x - of_int f
      in if d < 1 / 2 then f
         else if 1 / 2 < d then f + 1
         else if even f then f else f + 1)"

text \<open>
  The double that an arithmetic operation returns for the exact result \<open>x\<close>: the nearest
  multiple of the unit in the last place of \<open>x\<close> (53 significant bits), a tie going to the
  even significand, and an infinity when that is \<open>2\<^sup>1\<^sup>0\<^sup>2\<^sup>4\<close> or more in magnitude.
  It is also the double that \<^verbatim>\<open>JSON.parse\<close> gives a numeric literal.
\<close>

definition round_double :: "real \<Rightarrow> jsnum" where
  "round_double x =
     (if x = 0 then Fin 0
      else
        (let q = pow2 (binade \<bar>x\<bar> - 52);
             y = of_int (round_half_even (x / q)) * q
         in if pow2 1024 \<le> \<bar>y\<bar> then (if 0 < x then PosInf else NegInf) else Fin y))"

text \<open>\<^verbatim>\<open>Math.round\<close>: the nearest integer, a tie going up. The result is exact.\<close>

fun Math_round :: "jsnum \<Rightarrow> jsnum" where
  "Math_round (Fin r) = Fin (of_int \<lfloor>r + 1 / 2\<rfloor>)"
| "Math_round n = n"

fun Math_abs :: "jsnum \<Rightarrow> jsnum" where
  "Math_abs (Fin r) = Fin \<bar>r\<bar>"
| "Math_abs NegInf = PosInf"
| "Math_abs n = n"

text \<open>\<^verbatim>\<open>a - b\<close> on numbers.\<close>

fun js_sub :: "jsnum \<Rightarrow> jsnum \<Rightarrow> jsnum" where
  "js_sub NaN b = NaN"
| "js_sub a NaN = NaN"
| "js_sub (Fin a) (Fin b) = round_double (a - b)"
| "js_sub (Fin a) PosInf = NegInf"
| "js_sub (Fin a) NegInf = PosInf"
| "js_sub PosInf b = (if b = PosInf then NaN else PosInf)"
| "js_sub NegInf b = (if b = NegInf then NaN else NegInf)"

text \<open>The sign of a number: \<open>1\<close>, \<open>-1\<close>, or \<open>0\<close> for a zero and for \<^verbatim>\<open>NaN\<close>.\<close>

fun js_sign :: "jsnum \<Rightarrow> int" where
  "js_sign NaN = 0"
| "js_sign (Fin a) = (if 0 < a then 1 else if a < 0 then - 1 else 0)"
| "js_sign PosInf = 1"
| "js_sign NegInf = - 1"

text \<open>
  \<^verbatim>\<open>a * b\<close> on numbers. With an infinite factor the product is the infinity of the
  product's sign, and \<^verbatim>\<open>NaN\<close> when the other factor is zero.
\<close>

fun js_mul :: "jsnum \<Rightarrow> jsnum \<Rightarrow> jsnum" where
  "js_mul NaN b = NaN"
| "js_mul a NaN = NaN"
| "js_mul (Fin a) (Fin b) = round_double (a * b)"
| "js_mul a b =
     (if js_sign a * js_sign b = 0 then NaN
      else if 0 < js_sign a * js_sign b then PosInf else NegInf)"

text \<open>\<^verbatim>\<open>a < b\<close> on numbers: false as soon as an operand is \<^verbatim>\<open>NaN\<close>.\<close>

fun js_lt :: "jsnum \<Rightarrow> jsnum \<Rightarrow> bool" where
  "js_lt NaN b = False"
| "js_lt a NaN = False"
| "js_lt (Fin a) (Fin b) = (a < b)"
| "js_lt (Fin a) PosInf = True"
| "js_lt (Fin a) NegInf = False"
| "js_lt PosInf b = False"
| "js_lt NegInf b = (b \<noteq> NegInf)"

text \<open>
  \<^verbatim>\<open>a / b\<close>. JavaScript does not raise on a zero divisor: the quotient is an infinity or
  \<^verbatim>\<open>NaN\<close>. The model reports a division whose divisor is zero as
  \<open>Inl DivisionByZero\<close>, so that such a division shows in the result of every function
  that performs one.
\<close>

datatype arith_error = DivisionByZero

fun js_div :: "jsnum \<Rightarrow> jsnum \<Rightarrow> arith_error + jsnum" where
  "js_div a (Fin b) =
     (if b = 0 then Inl DivisionByZero
      else
        (case a of
           NaN \<Rightarrow> Inr NaN
         | Fin x \<Rightarrow> Inr (round_double (x / b))
         | PosInf \<Rightarrow> Inr (if 0 < b then PosInf else NegInf)
         | NegInf \<Rightarrow> Inr (if 0 < b then NegInf else PosInf)))"
| "js_div a NaN = Inr NaN"
| "js_div a b = (case a of Fin x \<Rightarrow> Inr (Fin 0) | _ \<Rightarrow> Inr NaN)"

text \<open>Decimal digits of a natural number.\<close>

fun digits :: "nat \<Rightarrow> string" where
  "digits n =
     (if n < 10 then [''0123456789'' ! n]
      else digits (n div 10) @ [''0123456789'' ! (n mod 10)])"

definition show_int :: "int \<Rightarrow> string" where
  "show_int i = (if i < 0 then ''-'' @ digits (nat (- i)) else digits (nat i))"

text \<open>
  The text a template literal substitutes for a number that \<^verbatim>\<open>Math.round\<close> returned:
  the decimal digits of the integer (below \<open>10\<^sup>2\<^sup>1\<close> in magnitude, where JavaScript
  changes to exponent notation), \<^verbatim>\<open>NaN\<close>, or an infinity.
\<close>

fun num_to_string :: "jsnum \<Rightarrow> string" where
  "num_to_string NaN = ''NaN''"
| "num_to_string (Fin r) = show_int \<lfloor>r\<rfloor>"
| "num_to_string PosInf = ''Infinity''"
| "num_to_string NegInf = ''-Infinity''"

section \<open>JavaScript values\<close>

text \<open>
  The dashboard receives its data from \<^verbatim>\<open>JSON.parse\<close> and \<^verbatim>\<open>response.json()\<close>.
  A value is therefore one of the JSON kinds, or \<^verbatim>\<open>undefined\<close> (the result of reading
  a property that is not there). An object is the list of its own properties, each key
  occurring once, as \<^verbatim>\<open>JSON.parse\<close> builds it.
\<close>

datatype jsval =
    JUndefined
  | JNull
  | JBool bool
  | JNum jsnum
  | JStr string
  | JArr "jsval list"
  | JObj "(string \<times> jsval) list"

text \<open>The value of a numeric literal, in a JSON text or in the source.\<close>

definition js_number :: "real \<Rightarrow> jsval" where
  "js_number r = JNum (round_double r)"

text \<open>
  Two ways to fail. \<open>TypeError\<close> is thrown synchronously by the statement being run
  (reading a property of \<^verbatim>\<open>null\<close> or \<^verbatim>\<open>undefined\<close>). \<open>RenderError\<close> is the
  \<^verbatim>\<open>TypeError\<close> thrown by a state updater or by a component body, which React raises
  while rendering, outside every \<^verbatim>\<open>try\<close> of the event handler that queued it.
\<close>

datatype js_error = TypeError | RenderError

text \<open>\<^verbatim>\<open>ToBoolean\<close>: what \<^verbatim>\<open>!x\<close>, \<^verbatim>\<open>x && y\<close>, \<^verbatim>\<open>x || y\<close> and \<^verbatim>\<open>x ? a : b\<close> test.\<close>

fun truthy :: "jsval \<Rightarrow> bool" where
  "truthy JUndefined = False"
| "truthy JNull = False"
| "truthy (JBool b) = b"
| "truthy (JNum n) = (n \<noteq> NaN \<and> n \<noteq> Fin 0)"
| "truthy (JStr s) = (s \<noteq> [])"
| "truthy (JArr xs) = True"
| "truthy (JObj kvs) = True"

text \<open>\<^verbatim>\<open>a || b\<close>\<close>

definition js_or :: "jsval \<Rightarrow> jsval \<Rightarrow> jsval" where
  "js_or a b = (if truthy a then a else b)"

text \<open>
  \<^verbatim>\<open>o.k\<close> for a receiver that is neither \<^verbatim>\<open>null\<close> nor \<^verbatim>\<open>undefined\<close>, for the
  property names the components read (none of them an array index or a name of a
  prototype): an object yields its property or \<^verbatim>\<open>undefined\<close>, arrays and strings have
  \<^verbatim>\<open>length\<close>, every other read is \<^verbatim>\<open>undefined\<close>.
\<close>

fun js_get :: "jsval \<Rightarrow> string \<Rightarrow> jsval" where
  "js_get (JObj kvs) k = (case map_of kvs k of Some v \<Rightarrow> v | None \<Rightarrow> JUndefined)"
| "js_get (JArr xs) k = (if k = ''length'' then JNum (Fin (real (length xs))) else JUndefined)"
| "js_get (JStr s) k = (if k = ''length'' then JNum (Fin (real (length s))) else JUndefined)"
| "js_get v k = JUndefined"

definition nullish :: "jsval \<Rightarrow> bool" where
  "nullish v = (v = JUndefined \<or> v = JNull)"

text \<open>\<^verbatim>\<open>o.k\<close> in general: reading a property of \<^verbatim>\<open>null\<close> or \<^verbatim>\<open>undefined\<close> throws.\<close>

definition get_prop :: "jsval \<Rightarrow> string \<Rightarrow> js_error + jsval" where
  "get_prop v k = (if nullish v then Inl TypeError else Inr (js_get v k))"

text \<open>
  \<^verbatim>\<open>ToNumber\<close>, which every arithmetic operator and \<^verbatim>\<open>Math.round\<close> apply to an
  operand. The conversion of a string, an array or an object (parsing a numeric literal,
  \<^verbatim>\<open>ToPrimitive\<close>) belongs to the JavaScript runtime and is the parameter \<open>coerce\<close>;
  every theorem holds for every such function.
\<close>

definition ToNumber :: "(jsval \<Rightarrow> jsnum) \<Rightarrow> jsval \<Rightarrow> jsnum" where
  "ToNumber coerce v =
     (case v of
        JUndefined \<Rightarrow> NaN
      | JNull \<Rightarrow> Fin 0
      | JBool b \<Rightarrow> Fin (if b then 1 else 0)
      | JNum n \<Rightarrow> n
      | _ \<Rightarrow> coerce v)"

text \<open>The icons the components import from \<^verbatim>\<open>lucide-react\<close>.\<close>

datatype icon =
    AlertCircle | TrendingUp | Lightbulb | AlertTriangle
  | Users | Clock | Heart | DollarSign | Brain

section \<open>MetricsDisplay\<close>

text \<open>
  One entry of \<^verbatim>\<open>metricCards\<close>. \<open>baseline\<close>, \<open>optimal\<close> and \<open>target\<close> are numeric
  literals of the source, absent on the cards that do not have them; \<open>current\<close> is
  \<^verbatim>\<open>undefined\<close> on the cards that do not have it.
\<close>

record metric_card =
  title :: string
  card_value :: jsval
  card_icon :: icon
  color :: string
  baseline :: "real option"
  current :: jsval
  optimal :: "real option"
  target :: "real option"

text \<open>
  The array \<^verbatim>\<open>metricCards\<close> built from the \<^verbatim>\<open>metrics\<close> property. Reading a field of
  a \<^verbatim>\<open>metrics\<close> that is \<^verbatim>\<open>null\<close> or \<^verbatim>\<open>undefined\<close> throws in the component body.
\<close>

definition metricCards :: "(jsval \<Rightarrow> jsnum) \<Rightarrow> jsval \<Rightarrow> js_error + metric_card list" where
  "metricCards coerce metrics =
     (if nullish metrics then Inl RenderError
      else Inr
        [\<lparr>title = ''Patients Waiting'',
          card_value = js_or (js_get metrics ''patients_waiting'') (JNum (Fin 0)),
          card_icon = Users, color = ''blue'',
          baseline = None, current = JUndefined, optimal = None, target = None\<rparr>,
         \<lparr>title = ''Avg Wait Time'',
          card_value = JStr (num_to_string (Math_round (ToNumber coerce
            (js_or (js_get metrics ''average_wait_time'') (JNum (Fin 0))))) @ '' min''),
          card_icon = Clock, color = ''yellow'',
          baseline = Some 28,
          current = js_or (js_get metrics ''average_wait_time'') (JNum (Fin 0)),
          optimal = None, target = None\<rparr>,
         \<lparr>title = ''Satisfaction'',
          card_value = JStr (num_to_string (Math_round (ToNumber coerce
            (js_or (js_get metrics ''average_satisfaction'') (JNum (Fin 50))))) @ ''%''),
          card_icon = Heart, color = ''green'',
          baseline = Some 72,
          current = js_or (js_get metrics ''average_satisfaction'') (JNum (Fin 50)),
          optimal = None, target = None\<rparr>,
         \<lparr>title = ''Provider Utilization'',
          card_value = JStr (num_to_string (Math_round (js_mul (ToNumber coerce
            (js_or (js_get metrics ''provider_utilization'') (JNum (Fin 0)))) (Fin 100))) @ ''%''),
          card_icon = TrendingUp, color = ''purple'',
          baseline = None, current = JUndefined, optimal = Some 85, target = None\<rparr>,
         \<lparr>title = ''Cost per Visit'',
          card_value = JStr (''$'' @ num_to_string (Math_round (ToNumber coerce
            (js_or (js_get metrics ''cost_per_visit'') (JNum (Fin 150)))))),
          card_icon = DollarSign, color = ''indigo'',
          baseline = Some 185,
          current = js_or (js_get metrics ''cost_per_visit'') (JNum (Fin 150)),
          optimal = None, target = None\<rparr>,
         \<lparr>title = ''Mental Health Access'',
          card_value = JStr (num_to_string (Math_round (ToNumber coerce
            (js_or (js_get metrics ''mental_health_access'') (JNum (Fin 0))))) @ ''%''),
          card_icon = Brain, color = ''pink'',
          baseline = None, current = JUndefined, optimal = None, target = Some 90\<rparr>])"

text \<open>\<^verbatim>\<open>getColorClasses(color)\<close>: the entry of the table, or the blue one.\<close>

definition getColorClasses :: "string \<Rightarrow> string" where
  "getColorClasses c =
     (case map_of
        [(''blue'', ''bg-blue-50 text-blue-600''),
         (''yellow'', ''bg-yellow-50 text-yellow-600''),
         (''green'', ''bg-green-50 text-green-600''),
         (''purple'', ''bg-purple-50 text-purple-600''),
         (''indigo'', ''bg-indigo-50 text-indigo-600''),
         (''pink'', ''bg-pink-50 text-pink-600'')] c of
        Some cls \<Rightarrow> cls
      | None \<Rightarrow> ''bg-blue-50 text-blue-600'')"

text \<open>The object \<^verbatim>\<open>getTrend\<close> returns.\<close>

record trend =
  trend_value :: jsnum
  direction :: string
  positive :: bool

text \<open>
  \<^verbatim>\<open>getTrend(current, baseline)\<close>; \<open>None\<close> is \<^verbatim>\<open>null\<close>. The baseline is the numeric
  literal of a card, or absent; \<^verbatim>\<open>!baseline\<close> holds when it is absent or zero. The
  current value is whatever the snapshot carried. The change
  \<^verbatim>\<open>((current - baseline) / baseline) * 100\<close> is computed in double arithmetic, each of
  the three operations rounding its result.
\<close>

definition getTrend ::
  "(jsval \<Rightarrow> jsnum) \<Rightarrow> jsval \<Rightarrow> real option \<Rightarrow> arith_error + trend option" where
  "getTrend coerce cur base =
     (case base of
        None \<Rightarrow> Inr None
      | Some b \<Rightarrow>
          if b = 0 \<or> \<not> truthy cur then Inr None
          else
            (case js_div (js_sub (ToNumber coerce cur) (Fin b)) (Fin b) of
               Inl e \<Rightarrow> Inl e
             | Inr q \<Rightarrow>
                 Inr (Some
                   \<lparr>trend_value = Math_abs (Math_round (js_mul q (Fin 100))),
                    direction = (if js_lt (ToNumber coerce cur) (Fin b) then ''down'' else ''up''),
                    positive = js_lt (ToNumber coerce cur) (Fin b)\<rparr>)))"

text \<open>
  What the component draws for one card: its title, icon, colour classes and value, and
  under them the trend, computed only for a card with a truthy baseline.
\<close>

record rendered_card =
  r_title :: string
  r_icon :: icon
  r_classes :: string
  r_value :: jsval
  r_trend :: "trend option"

definition render_card ::
  "(jsval \<Rightarrow> jsnum) \<Rightarrow> metric_card \<Rightarrow> arith_error + rendered_card" where
  "render_card coerce m =
     (case (case baseline m of
              None \<Rightarrow> Inr None
            | Some b \<Rightarrow> if b = 0 then Inr None else getTrend coerce (current m) (baseline m)) of
        Inl e \<Rightarrow> Inl e
      | Inr t \<Rightarrow>
          Inr \<lparr>r_title = title m, r_icon = card_icon m, r_classes = getColorClasses (color m),
               r_value = card_value m, r_trend = t\<rparr>)"

section \<open>InsightPanel\<close>

text \<open>
  \<^verbatim>\<open>getInsightIcon(type)\<close>: a \<^verbatim>\<open>switch\<close> on the type tag, compared with \<^verbatim>\<open>===\<close>,
  so only a string equal to one of the six labels leaves the default branch.
\<close>

definition getInsightIcon :: "jsval \<Rightarrow> icon" where
  "getInsightIcon type =
     (if type = JStr ''wait_time_crisis'' \<or> type = JStr ''capacity_crisis'' then AlertTriangle
      else if type = JStr ''innovation_success'' \<or> type = JStr ''social_network_pattern''
        then TrendingUp
      else if type = JStr ''resource_optimization'' \<or> type = JStr ''temporal_pattern''
        then Lightbulb
      else AlertCircle)"

text \<open>\<^verbatim>\<open>getSeverityColor(severity)\<close>\<close>

definition getSeverityColor :: "jsval \<Rightarrow> string" where
  "getSeverityColor severity =
     (if severity = JStr ''high'' then ''border-red-200 bg-red-50''
      else if severity = JStr ''medium'' then ''border-yellow-200 bg-yellow-50''
      else if severity = JStr ''low'' then ''border-green-200 bg-green-50''
      else ''border-gray-200 bg-gray-50'')"

text \<open>
  The insight of the \<^verbatim>\<open>new_insights\<close> example of the API document
  (docs/api/backend-api.md, the simulation update message).
\<close>

definition doc_bottleneck_insight :: jsval where
  "doc_bottleneck_insight = JObj
     [(''type'', JStr ''bottleneck_detected''),
      (''title'', JStr ''Triage Bottleneck Detected''),
      (''description'', JStr ''Triage station experiencing 50% above normal volume'')]"

section \<open>AISimulation\<close>

text \<open>The component's state: one field for each \<^verbatim>\<open>useState\<close>, with its initial value.\<close>

record sim_state =
  simulationId :: jsval
  isRunning :: bool
  isConnected :: bool
  currentState :: jsval
  insights :: "jsval list"
  agents :: jsval
  selectedAgent :: jsval
  queryResponse :: jsval

definition initial_sim_state :: sim_state where
  "initial_sim_state =
     \<lparr>simulationId = JNull, isRunning = False, isConnected = False,
      currentState = JObj [], insights = [], agents = JArr [],
      selectedAgent = JNull, queryResponse = JNull\<rparr>"

text \<open>
  How a handler ends: it returns, or it raises. Either way the state that its setters
  have queued so far is the component's next state. \<open>Raised RenderError\<close> is the failure
  of a queued updater while React renders.
\<close>

datatype 'a result = Returned 'a | Raised js_error 'a

fun state_of :: "'a result \<Rightarrow> 'a" where
  "state_of (Returned s) = s"
| "state_of (Raised e s) = s"

text \<open>
  \<^verbatim>\<open>[...x]\<close>: the elements of an array, the characters of a string; any other JSON value
  is not iterable.
\<close>

fun iterate :: "jsval \<Rightarrow> jsval list option" where
  "iterate (JArr xs) = Some xs"
| "iterate (JStr s) = Some (map (\<lambda>c. JStr [c]) s)"
| "iterate v = None"

text \<open>
  The statement both handlers use to retain insights, for a candidate \<open>x\<close> and the list
  \<open>prev\<close> held so far:
  \<^verbatim>\<open>if (x && x.length > 0) setInsights(prev => [...x, ...prev].slice(0, 20))\<close>.
  \<open>None\<close> is the updater throwing on a value that is not iterable.
\<close>

definition adds_insights :: "(jsval \<Rightarrow> jsnum) \<Rightarrow> jsval \<Rightarrow> bool" where
  "adds_insights coerce x =
     (truthy x \<and> js_lt (Fin 0) (ToNumber coerce (js_get x ''length'')))"

definition retain_insights ::
  "(jsval \<Rightarrow> jsnum) \<Rightarrow> jsval \<Rightarrow> jsval list \<Rightarrow> jsval list option" where
  "retain_insights coerce x prev =
     (if adds_insights coerce x
      then (case iterate x of None \<Rightarrow> None | Some new \<Rightarrow> Some (take 20 (new @ prev)))
      else Some prev)"

text \<open>\<^verbatim>\<open>handleWebSocketMessage(data)\<close>, for \<open>data\<close> the parsed frame.\<close>

definition handleWebSocketMessage ::
  "(jsval \<Rightarrow> jsnum) \<Rightarrow> jsval \<Rightarrow> sim_state \<Rightarrow> sim_state result" where
  "handleWebSocketMessage coerce data s =
     (case get_prop data ''type'' of
        Inl e \<Rightarrow> Raised e s
      | Inr ty \<Rightarrow>
          if ty = JStr ''initial_state'' then
            (case get_prop (js_get data ''data'') ''current_state'' of
               Inl e \<Rightarrow> Raised e s
             | Inr cs \<Rightarrow> Returned (s\<lparr>currentState := cs\<rparr>))
          else if ty = JStr ''simulation_update'' then
            (let s' = s\<lparr>currentState := js_get data ''state'', agents := js_get data ''agents''\<rparr>
             in case retain_insights coerce (js_get data ''new_insights'') (insights s) of
                  None \<Rightarrow> Raised RenderError s'
                | Some kept \<Rightarrow> Returned (s'\<lparr>insights := kept\<rparr>))
          else if ty = JStr ''simulation_completed'' then Returned (s\<lparr>isRunning := False\<rparr>)
          else if ty = JStr ''simulation_error'' then Returned (s\<lparr>isRunning := False\<rparr>)
          else Returned s)"

text \<open>
  \<^verbatim>\<open>{...a, ...b}\<close>: the own enumerable properties of \<open>a\<close>, then those of \<open>b\<close>, a later
  value replacing an earlier one of the same key. Arrays and strings contribute their
  indices. (The position JavaScript gives to integer-like keys is not modelled; no read
  depends on it.)
\<close>

fun own_props :: "jsval \<Rightarrow> (string \<times> jsval) list" where
  "own_props (JObj kvs) = kvs"
| "own_props (JArr xs) = zip (map digits [0..<length xs]) xs"
| "own_props (JStr s) = zip (map digits [0..<length s]) (map (\<lambda>c. JStr [c]) s)"
| "own_props v = []"

fun set_prop :: "string \<Rightarrow> jsval \<Rightarrow> (string \<times> jsval) list \<Rightarrow> (string \<times> jsval) list" where
  "set_prop k v [] = [(k, v)]"
| "set_prop k v ((k', v') # kvs) =
     (if k = k' then (k, v) # kvs else (k', v') # set_prop k v kvs)"

definition object_spread :: "jsval \<Rightarrow> jsval \<Rightarrow> jsval" where
  "object_spread a b =
     JObj (foldl (\<lambda>acc (k, v). set_prop k v acc) [] (own_props a @ own_props b))"

text \<open>\<^verbatim>\<open>handleQueryResult(result)\<close>\<close>

definition handleQueryResult ::
  "(jsval \<Rightarrow> jsnum) \<Rightarrow> jsval \<Rightarrow> sim_state \<Rightarrow> sim_state result" where
  "handleQueryResult coerce result s =
     (let s1 = s\<lparr>queryResponse := result\<rparr>
      in case get_prop result ''insights'' of
           Inl e \<Rightarrow> Raised e s1
         | Inr ri \<Rightarrow>
             (let s2 = (if truthy (js_get result ''metrics'')
                        then s1\<lparr>currentState :=
                               object_spread (currentState s1) (js_get result ''metrics'')\<rparr>
                        else s1)
              in case retain_insights coerce ri (insights s) of
                   None \<Rightarrow> Raised RenderError s2
                 | Some kept \<Rightarrow> Returned (s2\<lparr>insights := kept\<rparr>)))"

text \<open>
  What reaches the component: a frame of the WebSocket, or the result of a query handed
  over by \<^verbatim>\<open>NaturalLanguageQuery\<close>. \<open>consume\<close> processes a sequence of them, each in the
  state the previous one left (for a handler that raised, the state its setters had
  queued when it raised).
\<close>

datatype event = Frame jsval | QueryResult jsval

fun handle_event :: "(jsval \<Rightarrow> jsnum) \<Rightarrow> event \<Rightarrow> sim_state \<Rightarrow> sim_state result" where
  "handle_event coerce (Frame data) s = handleWebSocketMessage coerce data s"
| "handle_event coerce (QueryResult r) s = handleQueryResult coerce r s"

fun consume :: "(jsval \<Rightarrow> jsnum) \<Rightarrow> sim_state \<Rightarrow> event list \<Rightarrow> sim_state" where
  "consume coerce s [] = s"
| "consume coerce s (e # es) = consume coerce (state_of (handle_event coerce e s)) es"

text \<open>The branch of the \<^verbatim>\<open>switch\<close> that takes a frame.\<close>

datatype frame_kind = Initial | Update | Terminal | Unknown

definition frame_kind :: "jsval \<Rightarrow> frame_kind" where
  "frame_kind data =
     (let ty = js_get data ''type''
      in if ty = JStr ''initial_state'' then Initial
         else if ty = JStr ''simulation_update'' then Update
         else if ty = JStr ''simulation_completed'' \<or> ty = JStr ''simulation_error'' then Terminal
         else Unknown)"

section \<open>NaturalLanguageQuery\<close>

text \<open>
  \<^verbatim>\<open>String.prototype.trim\<close> removes white space and line terminators from both ends.
  Characters are code units below 256: tab, line feed, vertical tab, form feed, carriage
  return, space and the no-break space.
\<close>

definition js_space :: "char \<Rightarrow> bool" where
  "js_space c = (of_char c \<in> {9, 10, 11, 12, 13, 32, 160 :: nat})"

definition trim :: "string \<Rightarrow> string" where
  "trim s = rev (dropWhile js_space (rev (dropWhile js_space s)))"

text \<open>An entry of the conversation history.\<close>

record history_entry =
  entry_id :: nat
  timestamp :: string
  entry_query :: string
  entry_response :: jsval
  entry_metrics :: jsval
  entry_insights :: jsval

record nlq_state =
  query :: string
  isListening :: bool
  isSpeaking :: bool
  isProcessing :: bool
  response :: jsval
  error :: string
  isVoiceEnabled :: bool
  conversationHistory :: "history_entry list"

definition initial_nlq_state :: nlq_state where
  "initial_nlq_state =
     \<lparr>query = [], isListening = False, isSpeaking = False, isProcessing = False,
      response = JStr [], error = [], isVoiceEnabled = False, conversationHistory = []\<rparr>"

text \<open>
  What the environment answers during one call of \<^verbatim>\<open>processQuery\<close>: the promise of
  \<^verbatim>\<open>fetch\<close> rejects with an error message, or resolves to a response with its
  \<^verbatim>\<open>ok\<close> flag and status text, whose \<^verbatim>\<open>json()\<close> in turn rejects or yields a value;
  the clock read for the history entry; the message of the \<^verbatim>\<open>TypeError\<close> the engine
  throws, should one be thrown; and whether the browser has speech synthesis.
\<close>

datatype body_outcome = BodyRejected string | BodyJson jsval

datatype fetch_outcome = FetchRejected string | FetchResponded bool string body_outcome

record query_env =
  fetched :: fetch_outcome
  clock_ms :: nat
  clock_text :: string
  type_error_message :: string
  synth_available :: bool

text \<open>
  The request of \<^verbatim>\<open>processQuery\<close>: a POST of a JSON body to the query address of the
  simulation \<open>req_simulation\<close>, under \<^verbatim>\<open>http://localhost:8000/api/v2/simulations/\<close>.
\<close>

record query_request =
  req_simulation :: jsval
  req_method :: string
  req_content_type :: string
  req_query :: string
  req_include_context :: bool
  req_voice_response :: bool

definition build_request :: "jsval \<Rightarrow> string \<Rightarrow> query_request" where
  "build_request simId q =
     \<lparr>req_simulation = simId, req_method = ''POST'',
      req_content_type = ''application/json'', req_query = q,
      req_include_context = True, req_voice_response = True\<rparr>"

text \<open>
  The effects of one call: the request sent (none when the guard returns at once), the
  component's state, the state of the parent that owns \<^verbatim>\<open>onQueryResult\<close>, and the text
  handed to the speech synthesis.
\<close>

record 'p query_outcome =
  sent :: "query_request option"
  nlq :: nlq_state
  parent :: 'p
  spoken :: "jsval option"

text \<open>The banner \<^verbatim>\<open>{error && (...)}\<close> shows the error when it is a non-empty string.\<close>

definition error_visible :: "nlq_state \<Rightarrow> bool" where
  "error_visible s = (error s \<noteq> [])"


text \<open>The \<^verbatim>\<open>catch\<close> and \<^verbatim>\<open>finally\<close> blocks, for an error of message \<open>m\<close>.\<close>

definition caught ::
  "query_request \<Rightarrow> nlq_state \<Rightarrow> 'p \<Rightarrow> string \<Rightarrow> 'p query_outcome" where
  "caught req s p m =
     \<lparr>sent = Some req, nlq = s\<lparr>error := m, isProcessing := False\<rparr>, parent = p,
      spoken = None\<rparr>"

text \<open>
  The part of the \<^verbatim>\<open>try\<close> block that follows \<^verbatim>\<open>const data = await response.json()\<close>,
  for the parsed body \<open>data\<close>: the history entry, the response, the callback, the
  speech, and the reset of the input. A \<^verbatim>\<open>TypeError\<close> (of reading \<^verbatim>\<open>data.response\<close>,
  or thrown by the callback) goes to the \<^verbatim>\<open>catch\<close> block.
\<close>

definition answered ::
  "(jsval \<Rightarrow> 'p \<Rightarrow> 'p result) option \<Rightarrow> query_env \<Rightarrow> query_request \<Rightarrow> nlq_state
     \<Rightarrow> 'p \<Rightarrow> jsval \<Rightarrow> 'p query_outcome result" where
  "answered onQueryResult env req s1 p data =
     (case get_prop data ''response'' of
        Inl e \<Rightarrow> Returned (caught req s1 p (type_error_message env))
      | Inr r \<Rightarrow>
          (let newEntry =
                 \<lparr>entry_id = clock_ms env, timestamp = clock_text env,
                  entry_query = req_query req, entry_response = r,
                  entry_metrics = js_or (js_get data ''metrics'') (JObj []),
                  entry_insights = js_or (js_get data ''insights'') (JArr [])\<rparr>;
               s2 = s1\<lparr>conversationHistory := newEntry # conversationHistory s1,
                       response := r\<rparr>;
               said = (if isVoiceEnabled s1 \<and> truthy r \<and> synth_available env
                       then Some r else None);
               finish = (\<lambda>p'. \<lparr>sent = Some req,
                                nlq = s2\<lparr>query := [], isProcessing := False\<rparr>,
                                parent = p', spoken = said\<rparr>)
           in (case (case onQueryResult of None \<Rightarrow> Returned p | Some f \<Rightarrow> f data p) of
                 Returned p' \<Rightarrow> Returned (finish p')
               | Raised TypeError p' \<Rightarrow>
                   Returned (caught req s2 p' (type_error_message env))
               | Raised RenderError p' \<Rightarrow> Raised RenderError (finish p'))))"

text \<open>
  \<^verbatim>\<open>processQuery()\<close>, in a component with properties \<open>simulationId\<close> and
  \<open>onQueryResult\<close> (absent, or a function of the parent's state).
\<close>

definition processQuery ::
  "(jsval \<Rightarrow> 'p \<Rightarrow> 'p result) option \<Rightarrow> jsval \<Rightarrow> query_env \<Rightarrow> nlq_state \<Rightarrow> 'p
     \<Rightarrow> 'p query_outcome result" where
  "processQuery onQueryResult simId env s p =
     (if trim (query s) = [] \<or> \<not> truthy simId
      then Returned \<lparr>sent = None, nlq = s, parent = p, spoken = None\<rparr>
      else
        (let s1 = s\<lparr>isProcessing := True, error := []\<rparr>;
             req = build_request simId (query s)
         in (case fetched env of
               FetchRejected m \<Rightarrow> Returned (caught req s1 p m)
             | FetchResponded ok statusText body \<Rightarrow>
                 (if \<not> ok then Returned (caught req s1 p (''Query failed: '' @ statusText))
                  else
                    (case body of
                       BodyRejected m \<Rightarrow> Returned (caught req s1 p m)
                     | BodyJson data \<Rightarrow> answered onQueryResult env req s1 p data)))))"

text \<open>
  The component as \<^verbatim>\<open>AISimulation\<close> mounts it: \<open>simulationId\<close> is the parent's, and
  \<open>onQueryResult\<close> is \<^verbatim>\<open>handleQueryResult\<close>.
\<close>

definition submit_query ::
  "(jsval \<Rightarrow> jsnum) \<Rightarrow> query_env \<Rightarrow> nlq_state \<Rightarrow> sim_state
     \<Rightarrow> sim_state query_outcome result" where
  "submit_query coerce env s p =
     processQuery (Some (handleQueryResult coerce)) (simulationId p) env s p"

text \<open>
  The message of the error that a failing query call throws inside the \<^verbatim>\<open>try\<close>
  block: the rejection of \<^verbatim>\<open>fetch\<close>, the \<^verbatim>\<open>Error\<close> thrown for a response that
  is not \<^verbatim>\<open>ok\<close>, or the rejection of \<^verbatim>\<open>response.json()\<close>. \<open>None\<close> when the call
  yields a parsed body.
\<close>

fun failure_message :: "fetch_outcome \<Rightarrow> string option" where
  "failure_message (FetchRejected m) = Some m"
| "failure_message (FetchResponded ok statusText body) =
     (if \<not> ok then Some (''Query failed: '' @ statusText)
      else (case body of BodyRejected m \<Rightarrow> Some m | BodyJson data \<Rightarrow> None))"

text \<open>
  A concrete setting for the examples: the component asked a question, mounted under a
  parent that holds a simulation identifier and has no WebSocket connection, in a browser
  without speech synthesis.
\<close>

definition example_env :: "fetch_outcome \<Rightarrow> query_env" where
  "example_env f =
     \<lparr>fetched = f, clock_ms = 0, clock_text = ''12:00:00'',
      type_error_message = ''Cannot read properties of null'', synth_available = False\<rparr>"

definition asking :: "string \<Rightarrow> nlq_state" where
  "asking q = initial_nlq_state\<lparr>query := q\<rparr>"

definition mounted :: sim_state where
  "mounted = initial_sim_state\<lparr>simulationId := JStr ''sim_abc123''\<rparr>"

text \<open>
  The response of the natural language query endpoint as the API document gives it
  (docs/api/backend-api.md).
\<close>

definition doc_query_response :: jsval where
  "doc_query_response = JObj
     [(''query'', JStr ''What if we had 20% less nurses during the day shift?''),
      (''intent'', JStr ''what_if''),
      (''response'', JStr ''Based on your question... wait times would increase by 40% to approximately 39 minutes...''),
      (''confidence'', js_number (85 / 100)),
      (''scenario'', JObj [(''staff_reduction'', js_number (2 / 10))])]"



text \<open>
  Applying a change to the parent's state inside the outcome of a call, whichever way the
  call ended.
\<close>

fun with_parent ::
  "('p \<Rightarrow> 'p) \<Rightarrow> 'p query_outcome result \<Rightarrow> 'p query_outcome result" where
  "with_parent f (Returned out) = Returned (out\<lparr>parent := f (parent out)\<rparr>)"
| "with_parent f (Raised e out) = Raised e (out\<lparr>parent := f (parent out)\<rparr>)"


section \<open>The stream of a Run\<close>

text \<open>
  Modelled from the spec: the Streaming Broadcaster (sections 4.7 and 6), whose code is not
  among the sources. On subscription it sends the full current state, then one update per
  tick carrying the state, the agent summaries and the newly raised insights, then one
  terminal message when the Run ends. The messages have the layout of the API document
  (docs/api/backend-api.md), which defines two terminal messages: completion and error.
\<close>

record tick_update =
  upd_timestamp :: string
  upd_state :: jsval
  upd_agents :: "jsval list"
  upd_insights :: "jsval list"

datatype run_end = RunCompleted | RunFailed string

definition initial_message :: "string \<Rightarrow> jsval \<Rightarrow> jsval" where
  "initial_message sid snapshot = JObj
     [(''type'', JStr ''initial_state''),
      (''data'', JObj [(''simulation_id'', JStr sid), (''current_state'', snapshot)])]"

definition update_message :: "string \<Rightarrow> tick_update \<Rightarrow> jsval" where
  "update_message sid u = JObj
     [(''type'', JStr ''simulation_update''),
      (''simulation_id'', JStr sid),
      (''timestamp'', JStr (upd_timestamp u)),
      (''state'', upd_state u),
      (''agents'', JArr (upd_agents u)),
      (''new_insights'', JArr (upd_insights u))]"

fun terminal_message :: "string \<Rightarrow> run_end \<Rightarrow> jsval" where
  "terminal_message sid RunCompleted = JObj
     [(''type'', JStr ''simulation_completed''), (''simulation_id'', JStr sid)]"
| "terminal_message sid (RunFailed m) = JObj
     [(''type'', JStr ''simulation_error''), (''simulation_id'', JStr sid),
      (''error'', JStr m)]"

definition run_stream :: "string \<Rightarrow> jsval \<Rightarrow> tick_update list \<Rightarrow> run_end \<Rightarrow> jsval list" where
  "run_stream sid snapshot ups e =
     initial_message sid snapshot # map (update_message sid) ups @ [terminal_message sid e]"

section \<open>The Patient population of a Run\<close>

text \<open>
  The states of a Patient agent, as the agent framework document lists them
  (docs/simulation/agent-framework.md).
\<close>

datatype patient_state =
  ARRIVAL | CHECK_IN | WAITING | TRIAGE | TREATMENT | DISCHARGED | LEFT_WITHOUT_TREATMENT

fun terminal_state :: "patient_state \<Rightarrow> bool" where
  "terminal_state DISCHARGED = True"
| "terminal_state LEFT_WITHOUT_TREATMENT = True"
| "terminal_state st = False"

text \<open>
  Modelled from the spec: the Scheduler, the Population Manager and the Patient state
  machine (sections 3, 4.1, 4.2 and 7), whose code is not among the sources. What a Patient
  does in a tick is decided by random draws and by the resources available; the model takes
  the decision as an input: stay, advance along
  ARRIVAL, CHECK_IN, WAITING, TRIAGE, TREATMENT, DISCHARGED, leave (the edge from WAITING
  to LEFT_WITHOUT_TREATMENT), or fault (the agent is forced to a terminal state).
\<close>

datatype move = Stay | Advance | Leave | Fault

fun next_state :: "move \<Rightarrow> patient_state \<Rightarrow> patient_state" where
  "next_state Stay st = st"
| "next_state Advance st =
     (case st of
        ARRIVAL \<Rightarrow> CHECK_IN
      | CHECK_IN \<Rightarrow> WAITING
      | WAITING \<Rightarrow> TRIAGE
      | TRIAGE \<Rightarrow> TREATMENT
      | TREATMENT \<Rightarrow> DISCHARGED
      | DISCHARGED \<Rightarrow> DISCHARGED
      | LEFT_WITHOUT_TREATMENT \<Rightarrow> LEFT_WITHOUT_TREATMENT)"
| "next_state Leave st = (if st = WAITING then LEFT_WITHOUT_TREATMENT else st)"
| "next_state Fault st = (if terminal_state st then st else LEFT_WITHOUT_TREATMENT)"

record agent =
  agent_id :: nat
  agent_state :: patient_state
  elapsed_wait :: nat

text \<open>
  Modelled from the spec: a Run holds its tick counter, the active agents, the agents
  that reached a terminal state (removed from the active set and retained in history),
  and the number of agents created so far.
\<close>

record run =
  tick :: nat
  active :: "agent list"
  finished :: "agent list"
  created :: nat

definition new_run :: run where
  "new_run = \<lparr>tick = 0, active = [], finished = [], created = 0\<rparr>"

record tick_input =
  arrivals :: nat
  decide :: "nat \<Rightarrow> move"

text \<open>
  Modelled from the spec: one tick. The arrivals drawn for the tick join the active set
  in state ARRIVAL with fresh identifiers; every active agent is stepped, in the order of
  the identifiers; the agents that reached a terminal state are moved to the history.
\<close>

definition step_agent :: "(nat \<Rightarrow> move) \<Rightarrow> agent \<Rightarrow> agent" where
  "step_agent d a =
     a\<lparr>agent_state := next_state (d (agent_id a)) (agent_state a),
       elapsed_wait := Suc (elapsed_wait a)\<rparr>"

definition run_tick :: "tick_input \<Rightarrow> run \<Rightarrow> run" where
  "run_tick inp r =
     (let newcomers =
            map (\<lambda>i. \<lparr>agent_id = created r + i, agent_state = ARRIVAL, elapsed_wait = 0\<rparr>)
              [0..<arrivals inp];
          stepped = map (step_agent (decide inp)) (active r @ newcomers)
      in \<lparr>tick = Suc (tick r),
          active = filter (\<lambda>a. \<not> terminal_state (agent_state a)) stepped,
          finished = finished r @ filter (\<lambda>a. terminal_state (agent_state a)) stepped,
          created = created r + arrivals inp\<rparr>)"

fun run_ticks :: "run \<Rightarrow> tick_input list \<Rightarrow> run" where
  "run_ticks r [] = r"
| "run_ticks r (inp # inps) = run_ticks (run_tick inp r) inps"

text \<open>The number of agents of a Run, active or in history, whose state is among \<open>sts\<close>.\<close>

definition count_in :: "patient_state list \<Rightarrow> run \<Rightarrow> nat" where
  "count_in sts r =
     length (filter (\<lambda>a. agent_state a \<in> set sts) (active r @ finished r))"

section \<open>Insight presentation\<close>

lemma getInsightIcon_default_iff:
  "(getInsightIcon t = AlertCircle) =
   (t \<notin> JStr ` {''wait_time_crisis'', ''capacity_crisis'', ''innovation_success'',
                 ''social_network_pattern'', ''resource_optimization'', ''temporal_pattern''})"
  by (auto simp: getInsightIcon_def)

text \<open>
  C3, as the code has it. The insight presentation recognises six type tags and maps each
  to a non-default icon: the wait-time crisis and capacity crisis tags to the warning
  triangle, the innovation success and social-network pattern tags to the trend icon, the
  resource optimization and temporal pattern tags to the light bulb. Four of them are tags
  of the five-detector catalog; two are tags outside it.
\<close>

theorem C3_recognised_tags:
  "getInsightIcon (JStr ''wait_time_crisis'') = AlertTriangle
   \<and> getInsightIcon (JStr ''capacity_crisis'') = AlertTriangle
   \<and> getInsightIcon (JStr ''innovation_success'') = TrendingUp
   \<and> getInsightIcon (JStr ''social_network_pattern'') = TrendingUp
   \<and> getInsightIcon (JStr ''resource_optimization'') = Lightbulb
   \<and> getInsightIcon (JStr ''temporal_pattern'') = Lightbulb"
  by (simp add: getInsightIcon_def)

text \<open>
  C3 as stated asks that each of the five catalog tags, bottleneck detection among them,
  is mapped to a non-default category. The bottleneck tag, in either spelling
  (\<^verbatim>\<open>bottleneck_detection\<close>, or \<^verbatim>\<open>bottleneck_detected\<close> as the insight of the API
  document carries it), has no case in \<^verbatim>\<open>getInsightIcon\<close> and gets the default icon.
\<close>

theorem C3_bottleneck_counterexample:
  "getInsightIcon (JStr ''bottleneck_detection'') = AlertCircle
   \<and> getInsightIcon (JStr ''bottleneck_detected'') = AlertCircle
   \<and> getInsightIcon (js_get doc_bottleneck_insight ''type'') = AlertCircle"
  by (simp add: getInsightIcon_def doc_bottleneck_insight_def)

section \<open>Metric cards and trends\<close>

lemma round_double_zero: "round_double 0 = Fin 0"
  by (simp add: round_double_def)

lemma getTrend_no_division_by_zero: "getTrend coerce cur base \<noteq> Inl DivisionByZero"
  by (cases "ToNumber coerce cur")
     (auto simp: getTrend_def split: option.splits sum.splits jsnum.splits)


lemma render_card_total: "\<exists>rc. render_card coerce m = Inr rc"
proof (cases "baseline m")
  case None
  then show ?thesis by (simp add: render_card_def)
next
  case (Some b)
  obtain t where "getTrend coerce (current m) (Some b) = Inr t"
    using getTrend_no_division_by_zero [of coerce "current m" "Some b"]
    by (cases "getTrend coerce (current m) (Some b)") (auto intro: arith_error.exhaust)
  with Some show ?thesis by (simp add: render_card_def)
qed




text \<open>
  C10. For a metrics snapshot (any value but \<^verbatim>\<open>null\<close> and \<^verbatim>\<open>undefined\<close>), the six
  cards are built without failing, and a card whose field is omitted, zero or otherwise
  falsy shows its fixed default: 0 patients waiting, \<^verbatim>\<open>0 min\<close> average wait,
  \<^verbatim>\<open>50%\<close> satisfaction, \<^verbatim>\<open>0%\<close> provider utilization, \<^verbatim>\<open>$150\<close> cost per visit and
  \<^verbatim>\<open>0%\<close> mental health access.
\<close>

theorem C10_metric_defaults:
  assumes "\<not> nullish metrics"
  shows "\<exists>cards. metricCards coerce metrics = Inr cards \<and> length cards = 6
     \<and> (\<not> truthy (js_get metrics ''patients_waiting'')
          \<longrightarrow> card_value (cards ! 0) = JNum (Fin 0))
     \<and> (\<not> truthy (js_get metrics ''average_wait_time'')
          \<longrightarrow> card_value (cards ! 1) = JStr ''0 min'')
     \<and> (\<not> truthy (js_get metrics ''average_satisfaction'')
          \<longrightarrow> card_value (cards ! 2) = JStr ''50%'')
     \<and> (\<not> truthy (js_get metrics ''provider_utilization'')
          \<longrightarrow> card_value (cards ! 3) = JStr ''0%'')
     \<and> (\<not> truthy (js_get metrics ''cost_per_visit'')
          \<longrightarrow> card_value (cards ! 4) = JStr ''$150'')
     \<and> (\<not> truthy (js_get metrics ''mental_health_access'')
          \<longrightarrow> card_value (cards ! 5) = JStr ''0%'')"
  using assms
  by (simp add: metricCards_def js_or_def ToNumber_def show_int_def round_double_zero)

text \<open>
  C10 at a snapshot that reports a zero wait and a \<^verbatim>\<open>null\<close> cost and omits the four
  other fields: all six cards show their defaults.
\<close>

theorem C10_metric_defaults_witness:
  "map card_value
     (case metricCards (\<lambda>v. NaN)
             (JObj [(''average_wait_time'', JNum (Fin 0)), (''cost_per_visit'', JNull)]) of
        Inr cards \<Rightarrow> cards
      | Inl e \<Rightarrow> [])
   = [JNum (Fin 0), JStr ''0 min'', JStr ''50%'', JStr ''0%'', JStr ''$150'', JStr ''0%'']"
  using C10_metric_defaults
    [of "JObj [(''average_wait_time'', JNum (Fin 0)), (''cost_per_visit'', JNull)]" "\<lambda>v. NaN"]
  by (simp add: metricCards_def js_or_def ToNumber_def show_int_def nullish_def
        round_double_zero)

section \<open>Frames of the stream\<close>

lemma retain_insights_length:
  "length prev \<le> 20 \<Longrightarrow> retain_insights coerce x prev = Some kept \<Longrightarrow> length kept \<le> 20"
  by (auto simp: retain_insights_def split: if_splits option.splits)

lemma retain_insights_changed:
  "retain_insights coerce x prev = Some kept \<Longrightarrow> kept \<noteq> prev \<Longrightarrow> length kept \<le> 20"
  by (auto simp: retain_insights_def split: if_splits option.splits)

lemma retain_insights_array:
  "new \<noteq> [] \<Longrightarrow> retain_insights coerce (JArr new) prev = Some (take 20 (new @ prev))"
  by (simp add: retain_insights_def adds_insights_def ToNumber_def)

lemma handle_event_length:
  "length (insights s) \<le> 20
   \<Longrightarrow> length (insights (state_of (handle_event coerce e s))) \<le> 20"
  by (cases e)
     (auto simp: handleWebSocketMessage_def handleQueryResult_def Let_def
           dest: retain_insights_length split: sum.splits option.splits)

lemma handle_event_changed:
  "insights (state_of (handle_event coerce e s)) \<noteq> insights s
   \<Longrightarrow> length (insights (state_of (handle_event coerce e s))) \<le> 20"
  by (cases e)
     (auto simp: handleWebSocketMessage_def handleQueryResult_def Let_def
           dest: retain_insights_changed split: sum.splits option.splits if_splits)

lemma consume_length:
  "length (insights s) \<le> 20 \<Longrightarrow> length (insights (consume coerce s es)) \<le> 20"
  by (induction es arbitrary: s) (auto simp: handle_event_length)

lemma consume_append: "consume coerce s (es @ fs) = consume coerce (consume coerce s es) fs"
  by (induction es arbitrary: s) auto

lemma update_frame_array:
  assumes "js_get data ''type'' = JStr ''simulation_update''"
      and "js_get data ''new_insights'' = JArr new" and "new \<noteq> []"
  shows "handleWebSocketMessage coerce data s =
     Returned (s\<lparr>currentState := js_get data ''state'', agents := js_get data ''agents'',
                 insights := take 20 (new @ insights s)\<rparr>)"
proof -
  have "\<not> nullish data" using assms(1) by (auto simp: nullish_def)
  then show ?thesis using assms
    by (simp add: handleWebSocketMessage_def get_prop_def retain_insights_array Let_def)
qed

lemma query_result_array:
  assumes "js_get result ''insights'' = JArr new" and "new \<noteq> []"
  shows "\<exists>s'. handleQueryResult coerce result s = Returned s'
              \<and> insights s' = take 20 (new @ insights s)"
proof -
  have "\<not> nullish result" using assms(1) by (auto simp: nullish_def)
  then show ?thesis using assms
    by (simp add: handleQueryResult_def get_prop_def retain_insights_array Let_def)
qed

lemma handle_event_not_running:
  "\<not> isRunning s \<Longrightarrow> \<not> isRunning (state_of (handle_event coerce e s))"
  by (cases e)
     (auto simp: handleWebSocketMessage_def handleQueryResult_def Let_def
           split: sum.splits option.splits if_splits)

lemma consume_not_running: "\<not> isRunning s \<Longrightarrow> \<not> isRunning (consume coerce s es)"
  by (induction es arbitrary: s) (auto simp: handle_event_not_running)

lemma terminal_frame:
  assumes "frame_kind data = Terminal"
  shows "handleWebSocketMessage coerce data s = Returned (s\<lparr>isRunning := False\<rparr>)"
proof -
  have "\<not> nullish data" using assms by (auto simp: frame_kind_def nullish_def Let_def)
  then show ?thesis using assms
    by (auto simp: handleWebSocketMessage_def get_prop_def frame_kind_def Let_def
          split: if_splits)
qed

lemma frame_kind_terminal_message: "frame_kind (terminal_message sid e) = Terminal"
  by (cases e) (auto simp: frame_kind_def)

lemma frame_kind_stream:
  "map frame_kind (run_stream sid snapshot ups e)
   = Initial # replicate (length ups) Update @ [Terminal]"
proof -
  have "map frame_kind (map (update_message sid) ups) = replicate (length ups) Update"
    by (induction ups) (auto simp: frame_kind_def update_message_def)
  then show ?thesis
    by (simp add: run_stream_def frame_kind_terminal_message)
       (simp add: frame_kind_def initial_message_def)
qed

lemma stream_ends_not_running:
  "\<not> isRunning (consume coerce s (map Frame (run_stream sid snapshot ups e)))"
proof -
  have "run_stream sid snapshot ups e =
          (initial_message sid snapshot # map (update_message sid) ups)
          @ [terminal_message sid e]"
    by (simp add: run_stream_def)
  then show ?thesis
    by (simp add: consume_append terminal_frame [OF frame_kind_terminal_message]
          del: append.simps)
qed

lemma initial_frame:
  "handleWebSocketMessage coerce (initial_message sid snapshot) s
   = Returned (s\<lparr>currentState := snapshot\<rparr>)"
  by (simp add: handleWebSocketMessage_def initial_message_def get_prop_def nullish_def)

lemma update_frame:
  "handleWebSocketMessage coerce (update_message sid u) s =
     Returned (s\<lparr>currentState := upd_state u, agents := JArr (upd_agents u),
                 insights := (if upd_insights u = [] then insights s
                              else take 20 (upd_insights u @ insights s))\<rparr>)"
  by (simp add: handleWebSocketMessage_def update_message_def get_prop_def nullish_def
        retain_insights_def adds_insights_def ToNumber_def Let_def)

text \<open>
  C2. On the stream of a Run, every message is an initial full-state message, a per-tick
  update or a terminal message, in that order: the handler takes the first as the full
  state, each update as the new state, the agent summaries and the newly raised insights
  (put in front of the retained ones). Whenever the handler processes a terminal message
  (completion or error), it marks the run as not running, and nothing that reaches the
  component afterwards (frames or query results) marks it as running again; in
  particular the run is not running once the whole stream has been consumed.
\<close>

theorem C2_stream_messages:
  "map frame_kind (run_stream sid snapshot ups e)
     = Initial # replicate (length ups) Update @ [Terminal]
   \<and> handleWebSocketMessage coerce (initial_message sid snapshot) s
       = Returned (s\<lparr>currentState := snapshot\<rparr>)
   \<and> handleWebSocketMessage coerce (update_message sid u) s =
       Returned (s\<lparr>currentState := upd_state u, agents := JArr (upd_agents u),
                   insights := (if upd_insights u = [] then insights s
                                else take 20 (upd_insights u @ insights s))\<rparr>)
   \<and> (frame_kind data = Terminal \<longrightarrow>
        handleWebSocketMessage coerce data s = Returned (s\<lparr>isRunning := False\<rparr>)
        \<and> \<not> isRunning (consume coerce (state_of (handleWebSocketMessage coerce data s)) later))
   \<and> \<not> isRunning (consume coerce s (map Frame (run_stream sid snapshot ups e)))"
  using frame_kind_stream [of sid snapshot ups e] initial_frame [of coerce sid snapshot s]
    update_frame [of coerce sid u s] terminal_frame [of data coerce s]
    consume_not_running [of "s\<lparr>isRunning := False\<rparr>" coerce later]
    stream_ends_not_running [of coerce s sid snapshot ups e]
  by simp

text \<open>
  C2 at a running component that receives the error message of a failed run, followed by
  a late update: the run is marked as not running and stays so.
\<close>

theorem C2_stream_messages_witness:
  "frame_kind (JObj [(''type'', JStr ''simulation_error''), (''error'', JStr ''fault'')])
     = Terminal
   \<and> handleWebSocketMessage (\<lambda>v. NaN)
        (JObj [(''type'', JStr ''simulation_error''), (''error'', JStr ''fault'')])
        (mounted\<lparr>isRunning := True\<rparr>)
      = Returned (mounted\<lparr>isRunning := False\<rparr>)
   \<and> \<not> isRunning (consume (\<lambda>v. NaN)
        (state_of (handleWebSocketMessage (\<lambda>v. NaN)
          (JObj [(''type'', JStr ''simulation_error''), (''error'', JStr ''fault'')])
          (mounted\<lparr>isRunning := True\<rparr>)))
        [Frame (JObj [(''type'', JStr ''simulation_update'')])])"
  using C2_stream_messages
    [where data = "JObj [(''type'', JStr ''simulation_error''), (''error'', JStr ''fault'')]"
       and s = "mounted\<lparr>isRunning := True\<rparr>" and coerce = "\<lambda>v. NaN"
       and later = "[Frame (JObj [(''type'', JStr ''simulation_update'')])]"]
  by (simp add: frame_kind_def handleWebSocketMessage_def get_prop_def nullish_def
        retain_insights_def adds_insights_def ToNumber_def Let_def)

text \<open>
  C7. The retained insight list is ordered and bounded. From the component's initial
  state, whatever frames and query results arrive, the list never holds more than 20
  insights; whenever an operation changes the list, the new list holds at most 20; and an
  update frame or a query result that carries a non-empty array of insights leaves the
  list with these newest insights first, followed by the ones retained before, cut to 20.
\<close>

theorem C7_retained_insights:
  "length (insights (consume coerce initial_sim_state events)) \<le> 20
   \<and> (insights (state_of (handle_event coerce e s)) \<noteq> insights s
        \<longrightarrow> length (insights (state_of (handle_event coerce e s))) \<le> 20)
   \<and> (js_get data ''type'' = JStr ''simulation_update''
        \<and> js_get data ''new_insights'' = JArr new \<and> new \<noteq> []
        \<longrightarrow> handleWebSocketMessage coerce data s =
             Returned (s\<lparr>currentState := js_get data ''state'', agents := js_get data ''agents'',
                         insights := take 20 (new @ insights s)\<rparr>))
   \<and> (js_get result ''insights'' = JArr new \<and> new \<noteq> []
        \<longrightarrow> (\<exists>s'. handleQueryResult coerce result s = Returned s'
                  \<and> insights s' = take 20 (new @ insights s)))"
  using consume_length [of initial_sim_state coerce events] handle_event_changed [of coerce e s]
    update_frame_array [of data new coerce s] query_result_array [of result new coerce s]
  by (simp add: initial_sim_state_def)

text \<open>
  C7 at an update frame that carries two insights while one is retained, and at a frame
  that carries 21 copies of an insight: the new ones come first, and only 20 are kept.
\<close>

theorem C7_retained_insights_witness:
  "handleWebSocketMessage (\<lambda>v. NaN)
      (JObj [(''type'', JStr ''simulation_update''),
             (''new_insights'', JArr [JStr ''newer'', JStr ''new''])])
      (mounted\<lparr>insights := [JStr ''old'']\<rparr>)
    = Returned (mounted\<lparr>currentState := JUndefined, agents := JUndefined,
                        insights := [JStr ''newer'', JStr ''new'', JStr ''old'']\<rparr>)
   \<and> insights (consume (\<lambda>v. NaN) initial_sim_state
        [QueryResult (JObj [(''insights'', JArr [JStr ''old''])]),
         Frame (JObj [(''type'', JStr ''simulation_update''),
                      (''new_insights'', JArr (replicate 21 doc_bottleneck_insight))])])
      = replicate 20 doc_bottleneck_insight"
  using C7_retained_insights
    [where data = "JObj [(''type'', JStr ''simulation_update''),
                         (''new_insights'', JArr [JStr ''newer'', JStr ''new''])]"
       and new = "[JStr ''newer'', JStr ''new'']"
       and s = "mounted\<lparr>insights := [JStr ''old'']\<rparr>" and coerce = "\<lambda>v. NaN"]
  by (simp add: handleWebSocketMessage_def handleQueryResult_def get_prop_def nullish_def
        retain_insights_def adds_insights_def ToNumber_def initial_sim_state_def Let_def)

text \<open>
  C8, as the code has it. Processing a frame is a no-op outside the known protocol. For any
  frame whose type is none of \<^verbatim>\<open>initial_state\<close>, \<^verbatim>\<open>simulation_update\<close>,
  \<^verbatim>\<open>simulation_completed\<close> and \<^verbatim>\<open>simulation_error\<close>, the handler leaves the whole
  state of the consumer unchanged (current state, agent list, insight list and running
  flag among it). It returns normally for every such frame except \<^verbatim>\<open>null\<close> (and
  \<^verbatim>\<open>undefined\<close>), for which reading the type throws a \<^verbatim>\<open>TypeError\<close> before
  anything is set.
\<close>

theorem C8_unknown_frame_is_noop:
  assumes "get_prop data ''type'' \<noteq> Inr (JStr ''initial_state'')"
      and "get_prop data ''type'' \<noteq> Inr (JStr ''simulation_update'')"
      and "get_prop data ''type'' \<noteq> Inr (JStr ''simulation_completed'')"
      and "get_prop data ''type'' \<noteq> Inr (JStr ''simulation_error'')"
  shows "state_of (handleWebSocketMessage coerce data s) = s
      \<and> handleWebSocketMessage coerce data s
          = (if nullish data then Raised TypeError s else Returned s)"
  using assms
  by (cases "nullish data") (auto simp: handleWebSocketMessage_def get_prop_def)

text \<open>
  C8, as the code has it, at a frame of an unknown type and at a frame that is a number.
\<close>

theorem C8_unknown_frame_is_noop_witness:
  "handleWebSocketMessage (\<lambda>v. NaN)
      (JObj [(''type'', JStr ''heartbeat''), (''state'', JObj [])]) mounted = Returned mounted
   \<and> handleWebSocketMessage (\<lambda>v. NaN) (JNum (Fin 5)) mounted = Returned mounted"
  using C8_unknown_frame_is_noop
      [of "JObj [(''type'', JStr ''heartbeat''), (''state'', JObj [])]" "\<lambda>v. NaN" mounted]
    C8_unknown_frame_is_noop [of "JNum (Fin 5)" "\<lambda>v. NaN" mounted]
  by (simp add: get_prop_def nullish_def)

text \<open>
  C8 as stated says that processing a stream message is total. The frame \<^verbatim>\<open>null\<close>
  (the text \<^verbatim>\<open>null\<close> parses to it) has none of the four types, and the handler does
  not return on it: reading \<^verbatim>\<open>data.type\<close> throws a \<^verbatim>\<open>TypeError\<close>.
\<close>

theorem C8_null_frame_counterexample:
  "get_prop JNull ''type'' \<noteq> Inr (JStr ''initial_state'')
   \<and> get_prop JNull ''type'' \<noteq> Inr (JStr ''simulation_update'')
   \<and> get_prop JNull ''type'' \<noteq> Inr (JStr ''simulation_completed'')
   \<and> get_prop JNull ''type'' \<noteq> Inr (JStr ''simulation_error'')
   \<and> handleWebSocketMessage (\<lambda>v. NaN) JNull mounted = Raised TypeError mounted"
  by (simp add: handleWebSocketMessage_def get_prop_def nullish_def)

section \<open>Free-text queries\<close>


lemma handleQueryResult_flags:
  "handleQueryResult coerce d (p\<lparr>isRunning := r, isConnected := c\<rparr>) =
     (case handleQueryResult coerce d p of
        Returned q \<Rightarrow> Returned (q\<lparr>isRunning := r, isConnected := c\<rparr>)
      | Raised e q \<Rightarrow> Raised e (q\<lparr>isRunning := r, isConnected := c\<rparr>))"
  by (auto simp: handleQueryResult_def Let_def split: sum.splits option.splits)

text \<open>
  C4, as the code has it. A failing query call (a rejected \<^verbatim>\<open>fetch\<close>, a response that
  is not \<^verbatim>\<open>ok\<close>, a body that cannot be read) never leaves \<^verbatim>\<open>processQuery\<close> as an
  exception: the call returns, the processing flag is cleared, and nothing of the answer
  path happens (no history entry, no response, no callback, no speech). The message of
  the failure is stored in the error state, and the component shows it to the user
  whenever it is a non-empty text.
\<close>

theorem C4_failed_query_is_shown:
  assumes "trim (query s) \<noteq> []" and "truthy simId"
      and "failure_message (fetched env) = Some msg"
  shows "processQuery onQueryResult simId env s p =
           Returned \<lparr>sent = Some (build_request simId (query s)),
                     nlq = s\<lparr>error := msg, isProcessing := False\<rparr>,
                     parent = p, spoken = None\<rparr>
         \<and> error_visible (nlq (state_of (processQuery onQueryResult simId env s p)))
             = (msg \<noteq> [])"
  using assms
  by (cases "fetched env")
     (auto simp: processQuery_def caught_def error_visible_def Let_def
           split: body_outcome.splits if_splits)

text \<open>C4, as the code has it, at a query whose \<^verbatim>\<open>fetch\<close> is rejected.\<close>

theorem C4_failed_query_is_shown_witness:
  "processQuery (Some (handleQueryResult (\<lambda>v. NaN))) (JStr ''sim_abc123'')
      (example_env (FetchRejected ''Failed to fetch''))
      (asking ''What insights do you have?'') mounted
    = Returned \<lparr>sent = Some (build_request (JStr ''sim_abc123'') ''What insights do you have?''),
                nlq = (asking ''What insights do you have?'')\<lparr>error := ''Failed to fetch''\<rparr>,
                parent = mounted, spoken = None\<rparr>"
  using C4_failed_query_is_shown
    [of "asking ''What insights do you have?''" "JStr ''sim_abc123''"
        "example_env (FetchRejected ''Failed to fetch'')" "''Failed to fetch''"
        "Some (handleQueryResult (\<lambda>v. NaN))" mounted]
  by (simp add: trim_def js_space_def asking_def initial_nlq_state_def example_env_def)

text \<open>
  C4 as stated says that a failure of the query call is never surfaced as a user-visible
  error. A query answered with status 500 leaves the component showing
  \<^verbatim>\<open>Query failed: Internal Server Error\<close>.
\<close>

theorem C4_visible_error_counterexample:
  "error_visible (nlq (state_of (submit_query (\<lambda>v. NaN)
      (example_env (FetchResponded False ''Internal Server Error'' (BodyJson JNull)))
      (asking ''What insights do you have?'') mounted)))
   \<and> error (nlq (state_of (submit_query (\<lambda>v. NaN)
      (example_env (FetchResponded False ''Internal Server Error'' (BodyJson JNull)))
      (asking ''What insights do you have?'') mounted)))
      = ''Query failed: Internal Server Error''"
  by (simp add: submit_query_def processQuery_def caught_def error_visible_def trim_def
        js_space_def asking_def mounted_def initial_nlq_state_def initial_sim_state_def
        example_env_def Let_def)




text \<open>
  C6, as the code has it. For every run with a known (truthy) identifier and every query
  text that is not blank, the query is issued: the request carries that identifier and
  that text. The query path does not depend on the WebSocket connection: with the
  connection and running flags set to any values, the request, the component's state and
  the speech are the same, and the parent's state differs in those flags only.
\<close>

theorem C6_query_independent_of_stream:
  "submit_query coerce env s (p\<lparr>isRunning := r, isConnected := c\<rparr>) =
     with_parent (\<lambda>q. q\<lparr>isRunning := r, isConnected := c\<rparr>) (submit_query coerce env s p)
   \<and> (trim (query s) \<noteq> [] \<and> truthy (simulationId p) \<longrightarrow>
        sent (state_of (submit_query coerce env s p))
          = Some (build_request (simulationId p) (query s)))"
  by (auto simp: submit_query_def processQuery_def answered_def caught_def Let_def
        handleQueryResult_flags
      split: fetch_outcome.splits body_outcome.splits sum.splits result.splits js_error.splits)

text \<open>
  C6, as the code has it, at a component with no WebSocket connection: the query is
  issued all the same.
\<close>

theorem C6_query_independent_of_stream_witness:
  "\<not> isConnected mounted \<and> \<not> isRunning mounted
   \<and> sent (state_of (submit_query (\<lambda>v. NaN)
        (example_env (FetchResponded True ''OK'' (BodyJson doc_query_response)))
        (asking ''What insights do you have?'') mounted))
      = Some (build_request (JStr ''sim_abc123'') ''What insights do you have?'')"
  using C6_query_independent_of_stream
    [where coerce = "\<lambda>v. NaN"
       and env = "example_env (FetchResponded True ''OK'' (BodyJson doc_query_response))"
       and s = "asking ''What insights do you have?''" and p = mounted
       and r = False and c = False]
  by (simp add: trim_def js_space_def asking_def mounted_def initial_nlq_state_def
        initial_sim_state_def)

text \<open>
  C6 as stated promises the query for every non-empty text. A text of one space is not
  empty, yet the guard \<^verbatim>\<open>!query.trim()\<close> returns before any request is made.
\<close>

theorem C6_blank_query_counterexample:
  "query (asking '' '') \<noteq> [] \<and> truthy (simulationId mounted)
   \<and> submit_query (\<lambda>v. NaN)
        (example_env (FetchResponded True ''OK'' (BodyJson doc_query_response)))
        (asking '' '') mounted
      = Returned \<lparr>sent = None, nlq = asking '' '', parent = mounted, spoken = None\<rparr>"
  by (simp add: submit_query_def processQuery_def trim_def js_space_def asking_def
        mounted_def initial_nlq_state_def initial_sim_state_def)

section \<open>Conservation of the Patient population\<close>

lemma state_partition:
  "(st \<in> set [DISCHARGED, LEFT_WITHOUT_TREATMENT]) =
   (st \<notin> set [ARRIVAL, CHECK_IN, WAITING, TRIAGE, TREATMENT])"
  by (cases st) auto

lemma count_in_total:
  "count_in [ARRIVAL, CHECK_IN, WAITING, TRIAGE, TREATMENT] r
   + count_in [DISCHARGED, LEFT_WITHOUT_TREATMENT] r
   = length (active r) + length (finished r)"
proof -
  let ?P = "\<lambda>a. agent_state a \<in> set [ARRIVAL, CHECK_IN, WAITING, TRIAGE, TREATMENT]"
  have "count_in [DISCHARGED, LEFT_WITHOUT_TREATMENT] r
        = length (filter (\<lambda>a. \<not> ?P a) (active r @ finished r))"
    unfolding count_in_def state_partition ..
  moreover have "count_in [ARRIVAL, CHECK_IN, WAITING, TRIAGE, TREATMENT] r
        = length (filter ?P (active r @ finished r))"
    unfolding count_in_def ..
  ultimately show ?thesis
    using sum_length_filter_compl [of ?P "active r @ finished r"] by simp
qed

lemma run_tick_population:
  "length (active (run_tick inp r)) + length (finished (run_tick inp r))
   = length (active r) + length (finished r) + arrivals inp"
proof -
  define stepped where
    "stepped = map (step_agent (decide inp))
       (active r @ map (\<lambda>i. \<lparr>agent_id = created r + i, agent_state = ARRIVAL,
                                 elapsed_wait = 0\<rparr>) [0..<arrivals inp])"
  have a: "active (run_tick inp r) = filter (\<lambda>a. \<not> terminal_state (agent_state a)) stepped"
    and f: "finished (run_tick inp r)
            = finished r @ filter (\<lambda>a. terminal_state (agent_state a)) stepped"
    unfolding stepped_def by (simp_all add: run_tick_def Let_def)
  have n: "length stepped = length (active r) + arrivals inp"
    unfolding stepped_def by simp
  have "length (filter (\<lambda>a. terminal_state (agent_state a)) stepped)
        + length (filter (\<lambda>a. \<not> terminal_state (agent_state a)) stepped) = length stepped"
    by (rule sum_length_filter_compl)
  then show ?thesis
    unfolding a f using n by simp
qed

lemma run_tick_created: "created (run_tick inp r) = created r + arrivals inp"
  by (simp add: run_tick_def Let_def)

lemma run_ticks_population:
  "length (active r) + length (finished r) = created r
   \<Longrightarrow> length (active (run_ticks r inps)) + length (finished (run_ticks r inps))
       = created (run_ticks r inps)"
proof (induction inps arbitrary: r)
  case Nil
  then show ?case by simp
next
  case (Cons inp inps)
  have "length (active (run_tick inp r)) + length (finished (run_tick inp r))
        = created (run_tick inp r)"
    using Cons.prems by (simp add: run_tick_population run_tick_created)
  then show ?case using Cons.IH by simp
qed

text \<open>
  C1. Conservation: for every Run and at every tick (after any sequence of ticks, whatever
  the arrivals and the decisions of the agents), the number of agents in a non-terminal
  state (ARRIVAL, CHECK_IN, WAITING, TRIAGE, TREATMENT) plus the number of agents in a
  terminal state (DISCHARGED, LEFT_WITHOUT_TREATMENT) equals the number of agents ever
  created for the Run. The agents counted are the Patients, the kind whose machine has
  these states; active agents and agents in history are counted alike.
\<close>

theorem C1_conservation:
  "count_in [ARRIVAL, CHECK_IN, WAITING, TRIAGE, TREATMENT] (run_ticks new_run inps)
   + count_in [DISCHARGED, LEFT_WITHOUT_TREATMENT] (run_ticks new_run inps)
   = created (run_ticks new_run inps)"
  using run_ticks_population [of new_run inps]
  by (simp add: count_in_total new_run_def)

text \<open>
  C1 at a Run of two ticks: two arrivals that advance, then a third arrival while the
  first agent faults. Two agents are in a non-terminal state, one in a terminal state,
  three were created.
\<close>

theorem C1_conservation_witness:
  "count_in [ARRIVAL, CHECK_IN, WAITING, TRIAGE, TREATMENT]
      (run_ticks new_run
        [\<lparr>arrivals = 2, decide = (\<lambda>i. Advance)\<rparr>,
         \<lparr>arrivals = 1, decide = (\<lambda>i. if i = 0 then Fault else Stay)\<rparr>]) = 2
   \<and> count_in [DISCHARGED, LEFT_WITHOUT_TREATMENT]
      (run_ticks new_run
        [\<lparr>arrivals = 2, decide = (\<lambda>i. Advance)\<rparr>,
         \<lparr>arrivals = 1, decide = (\<lambda>i. if i = 0 then Fault else Stay)\<rparr>]) = 1
   \<and> created
      (run_ticks new_run
        [\<lparr>arrivals = 2, decide = (\<lambda>i. Advance)\<rparr>,
         \<lparr>arrivals = 1, decide = (\<lambda>i. if i = 0 then Fault else Stay)\<rparr>]) = 3"
  using C1_conservation
    [of "[\<lparr>arrivals = 2, decide = (\<lambda>i. Advance)\<rparr>,
          \<lparr>arrivals = 1, decide = (\<lambda>i. if i = 0 then Fault else Stay)\<rparr>]"]
  by (simp add: count_in_def run_tick_def new_run_def step_agent_def Let_def upt_conv_Cons)

end
